theory Spec2Isabelle
  imports Complex_Main
begin

section \<open>Conventions of the embedding\<close>

text \<open>
  The Empathy Engine is Python. Its \<open>float\<close> values are modelled as \<^typ>\<open>real\<close> numbers
  with exact arithmetic (no rounding error, no NaN, no infinities), its unbounded \<open>int\<close>
  values as \<^typ>\<open>int\<close>, and its \<open>str\<close> values as \<^typ>\<open>string\<close>, every \<^typ>\<open>char\<close>
  standing for one code point below 256. Exceptions are values of the type \<open>error\<close>; a
  function that can raise returns \<open>error + 'a\<close>, with \<open>Inl\<close> for the exception.
\<close>

datatype runtime_msg =
    FailedToClassify
  | ApiError
  | EmptyResponse
  | UnexpectedFormat

datatype error =
    RuntimeError runtime_msg
  | KeyError
  | TypeError
  | AttributeError
  | ValueError
  | IndexError
  | RenderFailure

section \<open>Python string operations used by the sources\<close>

definition is_space :: "char \<Rightarrow> bool" where
  \<comment> \<open>\<open>str.isspace\<close> on the code points below 256: 9..13, 28..32, 133 and 160.\<close>
  "is_space c =
     (let n = (of_char c :: nat)
      in (9 \<le> n \<and> n \<le> 13) \<or> (28 \<le> n \<and> n \<le> 32) \<or> n = 133 \<or> n = 160)"

definition lower_char :: "char \<Rightarrow> char" where
  \<comment> \<open>\<open>str.lower\<close> on one code point below 256.\<close>
  "lower_char c =
     (let n = (of_char c :: nat)
      in if (65 \<le> n \<and> n \<le> 90) \<or> (192 \<le> n \<and> n \<le> 214) \<or> (216 \<le> n \<and> n \<le> 222)
         then char_of (n + 32) else c)"

definition lower :: "string \<Rightarrow> string" where
  "lower s = map lower_char s"

definition strip :: "string \<Rightarrow> string" where
  \<comment> \<open>\<open>str.strip()\<close>: whitespace removed at both ends.\<close>
  "strip s = rev (dropWhile is_space (rev (dropWhile is_space s)))"

fun split_acc :: "string \<Rightarrow> string \<Rightarrow> string list" where
  \<comment> \<open>\<open>str.split()\<close> with the word read so far (reversed) as accumulator.\<close>
  "split_acc w [] = (if w = [] then [] else [rev w])"
| "split_acc w (c # cs) =
     (if is_space c then (if w = [] then split_acc [] cs else rev w # split_acc [] cs)
      else split_acc (c # w) cs)"

definition split :: "string \<Rightarrow> string list" where
  "split s = split_acc [] s"

fun join :: "string \<Rightarrow> string list \<Rightarrow> string" where
  \<comment> \<open>\<open>sep.join(words)\<close>\<close>
  "join sep [] = []"
| "join sep [w] = w"
| "join sep (w # v # ws) = w @ sep @ join sep (v # ws)"

fun starts_with :: "string \<Rightarrow> string \<Rightarrow> bool" where
  "starts_with [] s = True"
| "starts_with (p # ps) [] = False"
| "starts_with (p # ps) (c # cs) = (p = c \<and> starts_with ps cs)"

fun count_from :: "nat \<Rightarrow> string \<Rightarrow> string \<Rightarrow> nat" where
  \<comment> \<open>\<open>s.count(sub)\<close> for a non-empty \<open>sub\<close>: occurrences that do not overlap, scanning
      from the left; the first argument is how many characters of a match just found are
      still to be skipped.\<close>
  "count_from k sub [] = 0"
| "count_from (Suc k) sub (c # cs) = count_from k sub cs"
| "count_from 0 sub (c # cs) =
     (if starts_with sub (c # cs) then Suc (count_from (length sub - 1) sub cs)
      else count_from 0 sub cs)"

definition count :: "string \<Rightarrow> string \<Rightarrow> nat" where
  "count s sub = count_from 0 sub s"

section \<open>emotion.py\<close>

datatype EmotionLabel = positive | neutral | negative

record EmotionResult =
  label :: EmotionLabel
  intensity :: real

definition EMPHASIS_WORDS :: "string list" where
  "EMPHASIS_WORDS = [''really'', ''very'', ''so'', ''extremely'', ''incredibly'']"

subsection \<open>The classifier's response\<close>

text \<open>
  What \<open>response.json()\<close> can return. JSON integers and floats are one constructor: the
  code only tests them for truth and passes them to \<open>float\<close>. An object is its list of
  members.
\<close>

datatype json =
    JNull
  | JBool bool
  | JNum real
  | JStr string
  | JList "json list"
  | JDict "(string \<times> json) list"

text \<open>
  The outcome of \<open>session.post\<close>, \<open>raise_for_status\<close> and \<open>response.json\<close>: either one
  of them raises a \<open>requests.RequestException\<close>, or the decoded body is there.
\<close>

datatype http_outcome = RequestException | Json json

fun truthy :: "json \<Rightarrow> bool" where
  \<comment> \<open>Python's truth value of a decoded JSON value.\<close>
  "truthy JNull = False"
| "truthy (JBool b) = b"
| "truthy (JNum x) = (x \<noteq> 0)"
| "truthy (JStr s) = (s \<noteq> [])"
| "truthy (JList xs) = (xs \<noteq> [])"
| "truthy (JDict kv) = (kv \<noteq> [])"

fun has_key :: "string \<Rightarrow> json \<Rightarrow> bool" where
  \<comment> \<open>\<open>isinstance(d, dict) and key in d\<close>\<close>
  "has_key k (JDict kv) = (map_of kv k \<noteq> None)"
| "has_key k _ = False"

fun first_of :: "json \<Rightarrow> error + json" where
  \<comment> \<open>\<open>data[0]\<close>: a JSON object has no key \<open>0\<close>; a number, a truth value or \<open>None\<close>
      cannot be subscripted.\<close>
  "first_of (JList (x # xs)) = Inr x"
| "first_of (JList []) = Inl IndexError"
| "first_of (JStr (c # cs)) = Inr (JStr [c])"
| "first_of (JStr []) = Inl IndexError"
| "first_of (JDict kv) = Inl KeyError"
| "first_of _ = Inl TypeError"

fun is_list :: "json \<Rightarrow> bool" where
  "is_list (JList xs) = True"
| "is_list _ = False"

fun items_of :: "json \<Rightarrow> json list" where
  \<comment> \<open>The elements iterated by the comprehension over \<open>flat_scores\<close>, which is a list here.\<close>
  "items_of (JList xs) = xs"
| "items_of _ = []"

definition flat_scores_of :: "json \<Rightarrow> error + json list" where
  \<comment> \<open>Lines 99 to 114 of \<open>detect\<close>: the checks on the decoded body.\<close>
  "flat_scores_of data =
     (if has_key ''error'' data then Inl (RuntimeError ApiError)
      else if \<not> truthy data then Inl (RuntimeError EmptyResponse)
      else case first_of data of
             Inl e \<Rightarrow> Inl e
           | Inr first_item \<Rightarrow>
               if is_list first_item then Inr (items_of first_item)
               else if has_key ''label'' first_item then Inr (items_of data)
               else Inl (RuntimeError UnexpectedFormat))"

fun subscript :: "json \<Rightarrow> string \<Rightarrow> error + json" where
  \<comment> \<open>\<open>item[key]\<close> with a string key.\<close>
  "subscript (JDict kv) k = (case map_of kv k of None \<Rightarrow> Inl KeyError | Some v \<Rightarrow> Inr v)"
| "subscript _ k = Inl TypeError"

fun lower_of :: "json \<Rightarrow> error + string" where
  \<comment> \<open>\<open>value.lower()\<close>: only a string has the method.\<close>
  "lower_of (JStr s) = Inr (lower s)"
| "lower_of _ = Inl AttributeError"

fun py_float :: "(string \<Rightarrow> real option) \<Rightarrow> json \<Rightarrow> error + real" where
  \<comment> \<open>\<open>float(value)\<close>; the first argument is Python's parser of float literals, which
      gives \<open>None\<close> where \<open>float\<close> raises \<open>ValueError\<close>.\<close>
  "py_float parse (JNum x) = Inr x"
| "py_float parse (JBool b) = Inr (if b then 1 else 0)"
| "py_float parse (JStr s) = (case parse s of None \<Rightarrow> Inl ValueError | Some x \<Rightarrow> Inr x)"
| "py_float parse _ = Inl TypeError"

definition score_entry :: "(string \<Rightarrow> real option) \<Rightarrow> json \<Rightarrow> error + (string \<times> real)" where
  \<comment> \<open>One step of the comprehension: the key \<open>item["label"].lower()\<close> is evaluated
      before the value \<open>float(item["score"])\<close>.\<close>
  "score_entry parse item =
     (case subscript item ''label'' of
        Inl e \<Rightarrow> Inl e
      | Inr l \<Rightarrow>
          (case lower_of l of
             Inl e \<Rightarrow> Inl e
           | Inr k \<Rightarrow>
               (case subscript item ''score'' of
                  Inl e \<Rightarrow> Inl e
                | Inr s \<Rightarrow>
                    (case py_float parse s of
                       Inl e \<Rightarrow> Inl e
                     | Inr v \<Rightarrow> Inr (k, v)))))"

fun score_map_from :: "(string \<Rightarrow> real option) \<Rightarrow> (string \<rightharpoonup> real) \<Rightarrow> json list
    \<Rightarrow> error + (string \<rightharpoonup> real)" where
  \<comment> \<open>The dict comprehension of line 116: a later item overwrites an earlier one.\<close>
  "score_map_from parse m [] = Inr m"
| "score_map_from parse m (item # items) =
     (case score_entry parse item of
        Inl e \<Rightarrow> Inl e
      | Inr (k, v) \<Rightarrow> score_map_from parse (m(k \<mapsto> v)) items)"

definition get_or :: "(string \<rightharpoonup> real) \<Rightarrow> string \<Rightarrow> string \<Rightarrow> real" where
  \<comment> \<open>\<open>score_map.get(a) or score_map.get(b, 0.0)\<close>: a missing value and \<open>0.0\<close> are both
      false for \<open>or\<close>.\<close>
  "get_or m a b =
     (case m a of
        Some v \<Rightarrow> if v \<noteq> 0 then v else (case m b of Some w \<Rightarrow> w | None \<Rightarrow> 0)
      | None \<Rightarrow> (case m b of Some w \<Rightarrow> w | None \<Rightarrow> 0))"

definition positive_score :: "(string \<rightharpoonup> real) \<Rightarrow> real" where
  "positive_score m = get_or m ''positive'' ''label_2''"

definition neutral_score :: "(string \<rightharpoonup> real) \<Rightarrow> real" where
  "neutral_score m = get_or m ''neutral'' ''label_1''"

definition negative_score :: "(string \<rightharpoonup> real) \<Rightarrow> real" where
  "negative_score m = get_or m ''negative'' ''label_0''"

definition select_winner :: "real \<Rightarrow> real \<Rightarrow> real \<Rightarrow> EmotionLabel \<times> real" where
  \<comment> \<open>Lines 123 to 131: the arguments are the positive, neutral and negative score.\<close>
  "select_winner pos neu neg =
     (if pos \<ge> max neu neg then (positive, pos)
      else if neg \<ge> max pos neu then (negative, neg)
      else (neutral, neu))"

definition intensity_bonus :: "string \<Rightarrow> real" where
  \<comment> \<open>Lines 133 to 142, on the cleaned text.\<close>
  "intensity_bonus cleaned =
     (let exclamations = count cleaned ''!'';
          question = (CHR ''?'' \<in> set cleaned);
          emphasis_terms = sum_list (map (count (lower cleaned)) EMPHASIS_WORDS)
      in min 0.3 (0.06 * real exclamations + 0.05 * real emphasis_terms
                  + (if question then 0.03 else 0)))"

definition score_result :: "string \<Rightarrow> (string \<rightharpoonup> real) \<Rightarrow> EmotionResult" where
  \<comment> \<open>Lines 119 to 152: from the score map to the result.\<close>
  "score_result cleaned m =
     (case select_winner (positive_score m) (neutral_score m) (negative_score m) of
        (l, primary_score) \<Rightarrow>
          \<lparr>label = l, intensity = min 1 (primary_score + intensity_bonus cleaned)\<rparr>)"

definition interpret_response :: "(string \<Rightarrow> real option) \<Rightarrow> string \<Rightarrow> json \<Rightarrow> error + EmotionResult" where
  \<comment> \<open>Lines 99 to 152: everything \<open>detect\<close> does with the decoded body.\<close>
  "interpret_response parse cleaned data =
     (case flat_scores_of data of
        Inl e \<Rightarrow> Inl e
      | Inr flat_scores \<Rightarrow>
          (case score_map_from parse Map.empty flat_scores of
             Inl e \<Rightarrow> Inl e
           | Inr m \<Rightarrow> Inr (score_result cleaned m)))"

definition clean :: "string \<Rightarrow> string" where
  \<comment> \<open>\<open>" ".join(text.strip().split())\<close>\<close>
  "clean text = join '' '' (split (strip text))"

definition blank :: "string \<Rightarrow> bool" where
  \<comment> \<open>\<open>not text or not text.strip()\<close>\<close>
  "blank text = (text = [] \<or> strip text = [])"

definition detect :: "(string \<Rightarrow> real option) \<Rightarrow> (string \<Rightarrow> http_outcome) \<Rightarrow> string
    \<Rightarrow> (error + EmotionResult) \<times> string list" where
  \<comment> \<open>\<open>EmotionDetector.detect\<close>. The second argument is the remote classifier behind
      \<open>session.post\<close>, as a function of the submitted text. The second component of the
      result lists the texts this call submitted to it, in order.\<close>
  "detect parse post text =
     (if blank text then (Inr \<lparr>label = neutral, intensity = 0\<rparr>, [])
      else
        let cleaned = clean text
        in case post cleaned of
             RequestException \<Rightarrow> (Inl (RuntimeError FailedToClassify), [cleaned])
           | Json data \<Rightarrow> (interpret_response parse cleaned data, [cleaned]))"

section \<open>config.py\<close>

record VoiceProfile =
  profile_label :: string
  rate :: int
  volume :: real
  pitch :: "int option"
  rate_delta_range :: "int \<times> int"
  volume_delta_range :: "real \<times> real"
  pitch_delta_range :: "(int \<times> int) option"


section \<open>service.py\<close>

definition positive_profile :: VoiceProfile where
  "positive_profile =
     \<lparr>profile_label = ''positive'', rate = 186, volume = 0.95, pitch = Some 70,
      rate_delta_range = (0, 45), volume_delta_range = (0, 0.12),
      pitch_delta_range = Some (0, 12)\<rparr>"




definition py_round :: "real \<Rightarrow> int" where
  \<comment> \<open>Python's \<open>round(x)\<close> with one argument: to the nearest integer, a tie to the even one.\<close>
  "py_round x =
     (let f = \<lfloor>x\<rfloor>; d = x - of_int f
      in if d < 1 / 2 then f
         else if 1 / 2 < d then f + 1
         else if even f then f else f + 1)"




section \<open>ssml.py\<close>

definition rate_percentage :: "int \<Rightarrow> int \<Rightarrow> int" where
  "rate_percentage baseline applied =
     (if baseline \<le> 0 then 100
      else max 50 (min 200 (py_round (real_of_int applied / real_of_int baseline * 100))))"

definition volume_descriptor :: "real \<Rightarrow> string" where
  "volume_descriptor v =
     (if v \<ge> 0.95 then ''x-loud''
      else if v \<ge> 0.85 then ''loud''
      else if v \<ge> 0.7 then ''medium''
      else if v \<ge> 0.5 then ''soft''
      else ''x-soft'')"

definition digit_char :: "nat \<Rightarrow> char" where
  "digit_char d = char_of (48 + d)"

fun str_of_nat :: "nat \<Rightarrow> string" where
  "str_of_nat n =
     (if n < 10 then [digit_char n] else str_of_nat (n div 10) @ [digit_char (n mod 10)])"

declare str_of_nat.simps [simp del]

definition str_of_int :: "int \<Rightarrow> string" where
  \<comment> \<open>How an f-string prints an \<open>int\<close>.\<close>
  "str_of_int k = (if k < 0 then ''-'' @ str_of_nat (nat (- k)) else str_of_nat (nat k))"

definition pitch_step :: "int option \<Rightarrow> int option \<Rightarrow> string" where
  "pitch_step profile_pitch applied_pitch =
     (case profile_pitch of
        None \<Rightarrow> ''default''
      | Some pp \<Rightarrow>
          (case applied_pitch of
             None \<Rightarrow> ''default''
           | Some ap \<Rightarrow>
               (let offset = ap - pp
                in if offset = 0 then ''default''
                   else let semitone = max (- 20) (min 20 offset);
                            sign = (if semitone > 0 then ''+'' else [])
                        in sign @ str_of_int semitone @ ''st'')))"

fun html_escape :: "string \<Rightarrow> string" where
  \<comment> \<open>\<open>html.escape\<close> with \<open>quote=True\<close>\<close>
  "html_escape [] = []"
| "html_escape (c # cs) =
     (if c = CHR ''&'' then ''&amp;''
      else if c = CHR ''<'' then ''&lt;''
      else if c = CHR ''>'' then ''&gt;''
      else if c = CHR 0x22 then ''&quot;''
      else if c = CHR 0x27 then ''&#x27;''
      else [c]) @ html_escape cs"

text \<open>
  An \<open>xml.etree\<close> element: tag, attributes in the order of insertion, text (\<open>None\<close> until
  it is assigned) and children. No element of this program has a tail.
\<close>

datatype xml = Element string "(string \<times> string) list" "string option" "xml list"

definition namespace :: string where
  "namespace = ''http://www.w3.org/2001/10/synthesis''"

definition build_tree :: "string \<Rightarrow> EmotionResult \<Rightarrow> VoiceProfile \<Rightarrow> int \<Rightarrow> real \<Rightarrow> int option \<Rightarrow> xml" where
  \<comment> \<open>\<open>SSMLComposer.build\<close> up to the element tree it hands to \<open>tostring\<close>.\<close>
  "build_tree text emotion profile applied_rate applied_volume applied_pitch =
     (let safe_text = html_escape (strip text);
          prosody_attrs =
            [(''rate'', str_of_int (rate_percentage (rate profile) applied_rate) @ ''%''),
             (''volume'', volume_descriptor applied_volume)];
          pitch_descriptor = pitch_step (pitch profile) applied_pitch;
          prosody_attrs =
            (if pitch_descriptor = ''default'' then prosody_attrs
             else prosody_attrs @ [(''pitch'', pitch_descriptor)]);
          content =
            (if intensity emotion \<ge> 0.65
               then (None, [Element ''emphasis'' [(''level'', ''strong'')] (Some safe_text) []])
             else if intensity emotion \<ge> 0.35
               then (None, [Element ''emphasis'' [(''level'', ''moderate'')] (Some safe_text) []])
             else (Some safe_text, []));
          pause =
            (if label emotion = negative then [Element ''break'' [(''time'', ''250ms'')] None []]
             else if label emotion = positive \<and> intensity emotion \<ge> 0.5
               then [Element ''break'' [(''strength'', ''medium'')] None []]
             else [])
      in Element ''speak'' [(''xmlns'', namespace), (''version'', ''1.0'')] None
           [Element ''prosody'' prosody_attrs (fst content) (snd content @ pause)])"

fun escape_cdata :: "string \<Rightarrow> string" where
  "escape_cdata [] = []"
| "escape_cdata (c # cs) =
     (if c = CHR ''&'' then ''&amp;''
      else if c = CHR ''<'' then ''&lt;''
      else if c = CHR ''>'' then ''&gt;''
      else [c]) @ escape_cdata cs"

fun escape_attrib :: "string \<Rightarrow> string" where
  "escape_attrib [] = []"
| "escape_attrib (c # cs) =
     (if c = CHR ''&'' then ''&amp;''
      else if c = CHR ''<'' then ''&lt;''
      else if c = CHR ''>'' then ''&gt;''
      else if c = CHR 0x22 then ''&quot;''
      else if c = CHR 0x0D then ''&#13;''
      else if c = CHR 0x0A then ''&#10;''
      else if c = CHR 0x09 then ''&#09;''
      else [c]) @ escape_attrib cs"

fun attribute :: "string \<times> string \<Rightarrow> string" where
  "attribute (k, v) = '' '' @ k @ ''='' @ [CHR 0x22] @ escape_attrib v @ [CHR 0x22]"

fun tostring :: "xml \<Rightarrow> string" where
  \<comment> \<open>\<open>xml.etree.ElementTree.tostring(root, encoding="unicode")\<close> on a tree without
      namespaces and tails: an element with neither text nor children is written short.\<close>
  "tostring (Element tag attrs text children) =
     ''<'' @ tag @ concat (map attribute attrs) @
     (if text = None \<and> children = [] then '' />''
      else if text = Some [] \<and> children = [] then '' />''
      else ''>'' @ (case text of None \<Rightarrow> [] | Some t \<Rightarrow> escape_cdata t)
           @ concat (map tostring children) @ ''</'' @ tag @ ''>'')"

definition build :: "string \<Rightarrow> EmotionResult \<Rightarrow> VoiceProfile \<Rightarrow> int \<Rightarrow> real \<Rightarrow> int option \<Rightarrow> string" where
  \<comment> \<open>\<open>SSMLComposer.build\<close>\<close>
  "build text emotion profile applied_rate applied_volume applied_pitch =
     tostring (build_tree text emotion profile applied_rate applied_volume applied_pitch)"



fun iter :: "xml \<Rightarrow> xml list" where
  \<comment> \<open>\<open>Element.iter()\<close>: the element and all its descendants, in document order.\<close>
  "iter (Element tag attrs text children) =
     Element tag attrs text children # concat (map iter children)"


section \<open>speech.py\<close>

text \<open>
  The audio driver is outside the repository. The model keeps the three properties the code
  writes, and takes as parameters of a call what the driver decides: whether it accepts a
  pitch (\<open>setProperty("pitch", ...)\<close> raises otherwise, which the code swallows) and whether
  \<open>save_to_file\<close> and \<open>runAndWait\<close> return or raise.
\<close>

record Engine =
  engine_rate :: int
  engine_volume :: real
  engine_pitch :: int

record SpeechSynthesizer =
  engine :: Engine
  default_rate :: int
  default_volume :: real

definition new_synthesizer :: "Engine \<Rightarrow> SpeechSynthesizer" where
  \<comment> \<open>\<open>SpeechSynthesizer.__init__\<close> on a fresh engine, without a voice id.\<close>
  "new_synthesizer e =
     \<lparr>engine = e, default_rate = engine_rate e, default_volume = engine_volume e\<rparr>"

definition synthesize :: "bool \<Rightarrow> bool \<Rightarrow> SpeechSynthesizer \<Rightarrow> string \<Rightarrow> int option \<Rightarrow> real option
    \<Rightarrow> int option \<Rightarrow> string \<Rightarrow> (error + string) \<times> SpeechSynthesizer" where
  \<comment> \<open>\<open>SpeechSynthesizer.synthesize\<close>: the result and the synthesizer after the call. The
      destination path stands for its resolved form.\<close>
  "synthesize pitch_accepted render_returns self text rate_arg volume_arg pitch_arg destination =
     (let e0 = engine self;
          e1 = (case rate_arg of None \<Rightarrow> e0 | Some r \<Rightarrow> e0\<lparr>engine_rate := r\<rparr>);
          e2 = (case volume_arg of None \<Rightarrow> e1
                | Some v \<Rightarrow> e1\<lparr>engine_volume := max 0 (min 1 v)\<rparr>);
          e3 = (case pitch_arg of None \<Rightarrow> e2
                | Some p \<Rightarrow> if pitch_accepted then e2\<lparr>engine_pitch := p\<rparr> else e2)
      in if render_returns
         then (Inr destination,
               self\<lparr>engine := e3\<lparr>engine_rate := default_rate self,
                                    engine_volume := default_volume self\<rparr>\<rparr>)
         else (Inl RenderFailure, self\<lparr>engine := e3\<rparr>))"

section \<open>Fixtures\<close>

definition no_parse :: "string \<Rightarrow> real option" where
  \<comment> \<open>A float parser that is never asked: the fixtures carry their scores as numbers.\<close>
  "no_parse s = None"

definition reply_with :: "json \<Rightarrow> string \<Rightarrow> http_outcome" where
  \<comment> \<open>A classifier that answers every request with the same body.\<close>
  "reply_with body text = Json body"

definition score_item :: "string \<Rightarrow> real \<Rightarrow> json" where
  \<comment> \<open>The object \<open>{"label": l, "score": s}\<close>\<close>
  "score_item l s = JDict [(''label'', JStr l), (''score'', JNum s)]"



definition tie_body :: json where
  \<comment> \<open>The flat shape, positive and negative tied.\<close>
  "tie_body =
     JList [score_item ''negative'' 0.4, score_item ''neutral'' 0.2, score_item ''positive'' 0.4]"

definition zero_positive_body :: json where
  \<comment> \<open>The canonical positive score is exactly zero, the ordinal one is not.\<close>
  "zero_positive_body =
     JList [JList [score_item ''positive'' 0, score_item ''LABEL_2'' 0.7,
                   score_item ''neutral'' 0.2, score_item ''negative'' 0.1]]"


definition idle_engine :: Engine where
  "idle_engine = \<lparr>engine_rate = 200, engine_volume = 1, engine_pitch = 50\<rparr>"


definition tie_map :: "string \<rightharpoonup> real" where
  "tie_map = [''negative'' \<mapsto> 0.4, ''neutral'' \<mapsto> 0.2, ''positive'' \<mapsto> 0.4]"

definition zero_positive_map :: "string \<rightharpoonup> real" where
  "zero_positive_map =
     [''positive'' \<mapsto> 0, ''label_2'' \<mapsto> 0.7, ''neutral'' \<mapsto> 0.2, ''negative'' \<mapsto> 0.1]"

section \<open>Facts about the string operations and \<open>detect\<close>\<close>

lemma strip_Nil_iff: "strip s = [] \<longleftrightarrow> (\<forall>c \<in> set s. is_space c)"
proof
  assume "strip s = []"
  then have all: "\<forall>c \<in> set (dropWhile is_space s). is_space c"
    by (simp add: strip_def)
  have "dropWhile is_space s = []"
  proof (rule ccontr)
    assume ne: "dropWhile is_space s \<noteq> []"
    then have "\<not> is_space (hd (dropWhile is_space s))" by (rule hd_dropWhile)
    moreover from ne have "hd (dropWhile is_space s) \<in> set (dropWhile is_space s)" by simp
    ultimately show False using all by blast
  qed
  then show "\<forall>c \<in> set s. is_space c" by simp
next
  assume "\<forall>c \<in> set s. is_space c"
  then show "strip s = []" by (auto simp: strip_def dest: set_dropWhileD)
qed

lemma blank_iff: "blank text \<longleftrightarrow> (\<forall>c \<in> set text. is_space c)"
  by (auto simp: blank_def strip_Nil_iff)

lemma detect_scored:
  assumes "\<not> blank text" and "post (clean text) = Json data"
    and "flat_scores_of data = Inr items"
    and "score_map_from parse Map.empty items = Inr m"
  shows "detect parse post text = (Inr (score_result (clean text) m), [clean text])"
  using assms by (simp add: detect_def interpret_response_def Let_def)

lemma select_winner_cases:
  "select_winner p u n = (l, s) \<Longrightarrow>
     (l = positive \<longleftrightarrow> p \<ge> u \<and> p \<ge> n)
   \<and> (l = negative \<longleftrightarrow> n > p \<and> n \<ge> u)
   \<and> (l = neutral \<longleftrightarrow> u > p \<and> u > n)
   \<and> s = (case l of positive \<Rightarrow> p | neutral \<Rightarrow> u | negative \<Rightarrow> n)
   \<and> s = max p (max u n)"
  by (auto simp: select_winner_def split: if_splits)

lemma score_result_winner:
  fixes m cleaned
  defines "p \<equiv> positive_score m" and "u \<equiv> neutral_score m" and "n \<equiv> negative_score m"
  defines "r \<equiv> score_result cleaned m"
  shows "(label r = positive \<longleftrightarrow> p \<ge> u \<and> p \<ge> n)"
    and "(label r = negative \<longleftrightarrow> n > p \<and> n \<ge> u)"
    and "(label r = neutral \<longleftrightarrow> u > p \<and> u > n)"
    and "intensity r
          = min 1 ((case label r of positive \<Rightarrow> p | neutral \<Rightarrow> u | negative \<Rightarrow> n)
                   + intensity_bonus cleaned)"
    and "(case label r of positive \<Rightarrow> p | neutral \<Rightarrow> u | negative \<Rightarrow> n) = max p (max u n)"
proof -
  obtain l s where ls: "select_winner p u n = (l, s)" by (cases "select_winner p u n")
  then have r: "r = \<lparr>label = l, intensity = min 1 (s + intensity_bonus cleaned)\<rparr>"
    by (simp add: r_def score_result_def p_def u_def n_def)
  note c = select_winner_cases [OF ls]
  show "(label r = positive \<longleftrightarrow> p \<ge> u \<and> p \<ge> n)" using c r by simp
  show "(label r = negative \<longleftrightarrow> n > p \<and> n \<ge> u)" using c r by simp
  show "(label r = neutral \<longleftrightarrow> u > p \<and> u > n)" using c r by simp
  show "intensity r
          = min 1 ((case label r of positive \<Rightarrow> p | neutral \<Rightarrow> u | negative \<Rightarrow> n)
                   + intensity_bonus cleaned)" using c r by simp
  show "(case label r of positive \<Rightarrow> p | neutral \<Rightarrow> u | negative \<Rightarrow> n) = max p (max u n)"
    using c r by simp
qed


lemma get_or_zero: "m a = Some 0 \<Longrightarrow> get_or m a b = (case m b of Some w \<Rightarrow> w | None \<Rightarrow> 0)"
  by (simp add: get_or_def)

lemma get_or_drop:
  "m a = Some 0 \<Longrightarrow> a \<noteq> b \<Longrightarrow> get_or (m(a := None)) a b = get_or m a b"
proof -
  assume z: "m a = Some 0" and "a \<noteq> b"
  then have "(m(a := None)) a = None" and "(m(a := None)) b = m b" by simp_all
  then show ?thesis unfolding get_or_def using z by simp
qed

lemma get_or_other: "a \<noteq> c \<Longrightarrow> b \<noteq> c \<Longrightarrow> get_or (m(c := None)) a b = get_or m a b"
proof -
  assume "a \<noteq> c" and "b \<noteq> c"
  then have "(m(c := None)) a = m a" and "(m(c := None)) b = m b" by simp_all
  then show ?thesis unfolding get_or_def by (simp only:)
qed


lemma fine_not_blank: "\<not> blank ''fine''"
  by code_simp

lemma clean_fine: "clean ''fine'' = ''fine''"
  by code_simp

lemma bonus_fine: "intensity_bonus ''fine'' = 0"
  by code_simp


lemma lower_label_2: "lower ''LABEL_2'' = ''label_2''"
  by code_simp

lemma lower_canonical:
  "lower ''positive'' = ''positive''" "lower ''neutral'' = ''neutral''"
  "lower ''negative'' = ''negative''"
  by code_simp+

lemma score_entry_item: "score_entry parse (score_item l s) = Inr (lower l, s)"
  by (simp add: score_entry_def score_item_def)

lemma tie_flat: "flat_scores_of tie_body
  = Inr [score_item ''negative'' 0.4, score_item ''neutral'' 0.2, score_item ''positive'' 0.4]"
  by (simp add: flat_scores_of_def tie_body_def score_item_def)

lemma tie_scores: "score_map_from no_parse Map.empty
    [score_item ''negative'' 0.4, score_item ''neutral'' 0.2, score_item ''positive'' 0.4]
  = Inr tie_map"
  by (simp add: score_entry_item lower_canonical tie_map_def)

lemma tie_resolved:
  "positive_score tie_map = 0.4" "neutral_score tie_map = 0.2" "negative_score tie_map = 0.4"
  by (simp_all add: positive_score_def neutral_score_def negative_score_def get_or_def tie_map_def)

lemma score_result_drop_positive:
  assumes "m ''positive'' = Some 0"
  shows "score_result cleaned (m(''positive'' := None)) = score_result cleaned m"
proof -
  have "positive_score (m(''positive'' := None)) = positive_score m"
    unfolding positive_score_def using assms by (intro get_or_drop) simp_all
  moreover have "neutral_score (m(''positive'' := None)) = neutral_score m"
    unfolding neutral_score_def by (intro get_or_other) simp_all
  moreover have "negative_score (m(''positive'' := None)) = negative_score m"
    unfolding negative_score_def by (intro get_or_other) simp_all
  ultimately show ?thesis by (simp add: score_result_def)
qed

lemma score_result_drop_neutral:
  assumes "m ''neutral'' = Some 0"
  shows "score_result cleaned (m(''neutral'' := None)) = score_result cleaned m"
proof -
  have "neutral_score (m(''neutral'' := None)) = neutral_score m"
    unfolding neutral_score_def using assms by (intro get_or_drop) simp_all
  moreover have "positive_score (m(''neutral'' := None)) = positive_score m"
    unfolding positive_score_def by (intro get_or_other) simp_all
  moreover have "negative_score (m(''neutral'' := None)) = negative_score m"
    unfolding negative_score_def by (intro get_or_other) simp_all
  ultimately show ?thesis by (simp add: score_result_def)
qed

lemma score_result_drop_negative:
  assumes "m ''negative'' = Some 0"
  shows "score_result cleaned (m(''negative'' := None)) = score_result cleaned m"
proof -
  have "negative_score (m(''negative'' := None)) = negative_score m"
    unfolding negative_score_def using assms by (intro get_or_drop) simp_all
  moreover have "positive_score (m(''negative'' := None)) = positive_score m"
    unfolding positive_score_def by (intro get_or_other) simp_all
  moreover have "neutral_score (m(''negative'' := None)) = neutral_score m"
    unfolding neutral_score_def by (intro get_or_other) simp_all
  ultimately show ?thesis by (simp add: score_result_def)
qed

lemma zero_positive_flat: "flat_scores_of zero_positive_body
  = Inr [score_item ''positive'' 0, score_item ''LABEL_2'' 0.7, score_item ''neutral'' 0.2,
         score_item ''negative'' 0.1]"
  by (simp add: flat_scores_of_def zero_positive_body_def score_item_def)

lemma zero_positive_scores: "score_map_from no_parse Map.empty
    [score_item ''positive'' 0, score_item ''LABEL_2'' 0.7, score_item ''neutral'' 0.2,
     score_item ''negative'' 0.1]
  = Inr zero_positive_map"
  by (simp add: score_entry_item lower_canonical lower_label_2 zero_positive_map_def)

section \<open>Facts about the composer\<close>


lemma iter_leaf: "iter (Element t a x []) = [Element t a x []]"
  by simp


lemma build_example:
  "build ''I am <so> happy!'' \<lparr>label = positive, intensity = 1\<rparr> positive_profile 231 1 (Some 82)
  = ''<speak xmlns='' @ [CHR 0x22] @ ''http://www.w3.org/2001/10/synthesis'' @ [CHR 0x22] @ '' version=''
   @ [CHR 0x22] @ ''1.0'' @ [CHR 0x22] @ ''><prosody rate='' @ [CHR 0x22] @ ''124%'' @ [CHR 0x22] @ '' volume=''
   @ [CHR 0x22] @ ''x-loud'' @ [CHR 0x22] @ '' pitch='' @ [CHR 0x22] @ ''+12st'' @ [CHR 0x22] @ ''><emphasis level=''
   @ [CHR 0x22] @ ''strong'' @ [CHR 0x22] @ ''>I am &amp;lt;so&amp;gt; happy!</emphasis><break strength=''
   @ [CHR 0x22] @ ''medium'' @ [CHR 0x22] @ '' /></prosody></speak>''"
  by code_simp

section \<open>The claims on emotion detection\<close>

text \<open>
  C1. A text that is empty or holds only whitespace gives the result
  \<open>{label: neutral, intensity: 0.0}\<close> at once: the list of texts submitted to the
  classifier is empty, whatever the classifier would have answered.
\<close>

theorem blank_text_is_neutral_without_call:
  assumes "\<forall>c \<in> set text. is_space c"
  shows "detect parse post text = (Inr \<lparr>label = neutral, intensity = 0\<rparr>, [])"
  using assms by (simp add: detect_def blank_iff)

theorem blank_text_is_neutral_without_call_witness:
  "detect no_parse (reply_with tie_body) [] = (Inr \<lparr>label = neutral, intensity = 0\<rparr>, [])
   \<and> detect no_parse (reply_with tie_body) [CHR '' '', CHR 0x09, CHR 0x0A]
       = (Inr \<lparr>label = neutral, intensity = 0\<rparr>, [])"
proof -
  have a: "\<forall>c \<in> set ([] :: string). is_space c" by simp
  have b: "\<forall>c \<in> set [CHR '' '', CHR 0x09, CHR 0x0A]. is_space c"
    by (simp add: is_space_def)
  show ?thesis
    using blank_text_is_neutral_without_call [OF a] blank_text_is_neutral_without_call [OF b]
    by simp
qed







text \<open>
  C3. Whenever the response yields a score map, \<open>detect\<close> returns a result whose label is
  positive exactly when the positive score is at least the other two, negative exactly when
  the negative score is at least the neutral one and above the positive one, and neutral
  exactly when the neutral score is above both: a tie goes to positive before negative
  before neutral. The score of the winning class is the greatest of the three, and the
  intensity is computed from it.
\<close>

theorem winner_by_priority:
  assumes "\<not> blank text" and "post (clean text) = Json data"
    and "flat_scores_of data = Inr items"
    and "score_map_from parse Map.empty items = Inr m"
  shows "\<exists>r. detect parse post text = (Inr r, [clean text])
     \<and> (label r = positive \<longleftrightarrow>
          positive_score m \<ge> neutral_score m \<and> positive_score m \<ge> negative_score m)
     \<and> (label r = negative \<longleftrightarrow>
          negative_score m > positive_score m \<and> negative_score m \<ge> neutral_score m)
     \<and> (label r = neutral \<longleftrightarrow>
          neutral_score m > positive_score m \<and> neutral_score m > negative_score m)
     \<and> (case label r of positive \<Rightarrow> positive_score m | neutral \<Rightarrow> neutral_score m
          | negative \<Rightarrow> negative_score m)
        = max (positive_score m) (max (neutral_score m) (negative_score m))
     \<and> intensity r
        = min 1 ((case label r of positive \<Rightarrow> positive_score m | neutral \<Rightarrow> neutral_score m
                  | negative \<Rightarrow> negative_score m) + intensity_bonus (clean text))"
  using detect_scored [where post = post and parse = parse, OF assms]
    score_result_winner [where m = m and cleaned = "clean text"]
  by simp

theorem winner_by_priority_witness:
  "\<exists>r. detect no_parse (reply_with tie_body) ''fine'' = (Inr r, [''fine''])
     \<and> label r = positive \<and> intensity r = 0.4"
proof -
  have post: "reply_with tie_body (clean ''fine'') = Json tie_body"
    by (simp add: reply_with_def)
  from winner_by_priority [where post = "reply_with tie_body" and parse = no_parse,
      OF fine_not_blank post tie_flat tie_scores]
  obtain r where "detect no_parse (reply_with tie_body) ''fine'' = (Inr r, [''fine''])"
    and "label r = positive"
    and "intensity r = min 1 ((case label r of positive \<Rightarrow> positive_score tie_map
           | neutral \<Rightarrow> neutral_score tie_map | negative \<Rightarrow> negative_score tie_map)
           + intensity_bonus ''fine'')"
    by (auto simp add: tie_resolved clean_fine)
  then show ?thesis
    by (auto simp add: tie_resolved bonus_fine)
qed




text \<open>
  C10. When the score map holds exactly \<open>0.0\<close> for a canonical label, the score used for
  that class is the one of the ordinal label (\<open>label_2\<close>, \<open>label_1\<close>, \<open>label_0\<close>), or
  \<open>0.0\<close> when that is absent too, and \<open>detect\<close> returns what it returns for the score map
  without the canonical entry.
\<close>

theorem zero_canonical_score_counts_as_missing:
  assumes "\<not> blank text" and "post (clean text) = Json data"
    and "flat_scores_of data = Inr items"
    and "score_map_from parse Map.empty items = Inr m"
  shows "(m ''positive'' = Some 0 \<longrightarrow>
            positive_score m = (case m ''label_2'' of Some w \<Rightarrow> w | None \<Rightarrow> 0)
          \<and> detect parse post text
              = (Inr (score_result (clean text) (m(''positive'' := None))), [clean text]))
       \<and> (m ''neutral'' = Some 0 \<longrightarrow>
            neutral_score m = (case m ''label_1'' of Some w \<Rightarrow> w | None \<Rightarrow> 0)
          \<and> detect parse post text
              = (Inr (score_result (clean text) (m(''neutral'' := None))), [clean text]))
       \<and> (m ''negative'' = Some 0 \<longrightarrow>
            negative_score m = (case m ''label_0'' of Some w \<Rightarrow> w | None \<Rightarrow> 0)
          \<and> detect parse post text
              = (Inr (score_result (clean text) (m(''negative'' := None))), [clean text]))"
proof -
  note d = detect_scored [where post = post and parse = parse, OF assms]
  show ?thesis
    by (simp add: d positive_score_def neutral_score_def negative_score_def get_or_zero
        score_result_drop_positive score_result_drop_neutral score_result_drop_negative)
qed

theorem zero_canonical_score_counts_as_missing_witness:
  "zero_positive_map ''positive'' = Some 0
   \<and> positive_score zero_positive_map = 0.7
   \<and> detect no_parse (reply_with zero_positive_body) ''fine''
       = (Inr \<lparr>label = positive, intensity = 0.7\<rparr>, [''fine''])"
proof -
  have post: "reply_with zero_positive_body (clean ''fine'') = Json zero_positive_body"
    by (simp add: reply_with_def)
  have z: "zero_positive_map ''positive'' = Some 0"
    by (simp add: zero_positive_map_def)
  have l: "zero_positive_map ''label_2'' = Some 0.7"
    by (simp add: zero_positive_map_def)
  have r: "score_result ''fine'' (zero_positive_map(''positive'' := None))
            = \<lparr>label = positive, intensity = 0.7\<rparr>"
    by (simp add: score_result_def select_winner_def positive_score_def neutral_score_def
        negative_score_def get_or_def zero_positive_map_def bonus_fine)
  from zero_canonical_score_counts_as_missing
         [where post = "reply_with zero_positive_body" and parse = no_parse,
          OF fine_not_blank post zero_positive_flat zero_positive_scores]
  show ?thesis
    by (simp add: z l r clean_fine)
qed

section \<open>The claims on modulation, markup and synthesis\<close>








text \<open>
  C9 does not hold of the code. On an engine at rate 200, volume 1.0 and pitch 50, a call
  with rate 231, volume 0.5 and pitch 82 that returns leaves the pitch at 82: the code
  restores rate and volume only. The same call, when rendering raises, leaves rate 231,
  volume 0.5 and pitch 82: the restoring statements are not reached.
\<close>

theorem synthesize_leaves_overrides:
  "synthesize True True (new_synthesizer idle_engine) ''hello'' (Some 231) (Some 0.5) (Some 82) ''out.wav''
     = (Inr ''out.wav'',
        \<lparr>engine = \<lparr>engine_rate = 200, engine_volume = 1, engine_pitch = 82\<rparr>,
         default_rate = 200, default_volume = 1\<rparr>)
   \<and> synthesize True False (new_synthesizer idle_engine) ''hello'' (Some 231) (Some 0.5) (Some 82) ''out.wav''
     = (Inl RenderFailure,
        \<lparr>engine = \<lparr>engine_rate = 231, engine_volume = 0.5, engine_pitch = 82\<rparr>,
         default_rate = 200, default_volume = 1\<rparr>)
   \<and> engine (new_synthesizer idle_engine)
     = \<lparr>engine_rate = 200, engine_volume = 1, engine_pitch = 50\<rparr>"
  by (simp add: synthesize_def new_synthesizer_def idle_engine_def)

end
